theory Spec2Isabelle
  imports Main "HOL-Library.AList"
begin

section \<open>Values\<close>

text \<open>
  Data values of the JavaScript program: field values of records, keys and item metadata.
  An object is the association list of its own fields, in insertion order.
\<close>

datatype jsval =
    VUndefined
  | VNull
  | VBool bool
  | VNum int
  | VStr string
  | VArr "jsval list"
  | VObj "(string \<times> jsval) list"

text \<open>
  A row of a page: a record of the provider's data type, or \<open>null\<close>, or \<open>undefined\<close>
  (a hole of an array, or an index read beyond its length).
\<close>

datatype row = RUndefined | RNull | RObj "(string \<times> jsval) list"

text \<open>
  Values of an attribute request (\<open>Array<string | FetchAttribute>\<close>): a string, an object
  \<open>{name, attributes}\<close> whose name is a string, an array of such values, \<open>null\<close> or
  \<open>undefined\<close>. The lists computed by the provider are made of the same values.
\<close>

datatype attr =
    AUndefined
  | ANull
  | AStr string
  | AArr "attr list"
  | AObj string attr

text \<open>
  What is thrown, or what a promise is rejected with: a TypeError of the engine (the model
  names the property that could not be read), an \<open>Error\<close> with its message, or the reason
  a provider gives.
\<close>

datatype js_error =
    TypeError string
  | JsError string
  | Rejection jsval

text \<open>\<open>x != undefined\<close> and \<open>x != null\<close> (loose): neither \<open>null\<close> nor \<open>undefined\<close>.\<close>

fun attr_defined :: "attr \<Rightarrow> bool" where
  "attr_defined AUndefined = False"
| "attr_defined ANull = False"
| "attr_defined _ = True"

text \<open>Truthiness of an attribute value, for \<open>params && params.attributes\<close>.\<close>

fun attr_truthy :: "attr \<Rightarrow> bool" where
  "attr_truthy AUndefined = False"
| "attr_truthy ANull = False"
| "attr_truthy (AStr s) = (s \<noteq> [])"
| "attr_truthy _ = True"

text \<open>
  Arrays: \<open>xs[i]\<close> beyond the length reads \<open>undefined\<close>; \<open>xs[i] = v\<close> beyond the length
  extends the array, the indices in between being holes. The first argument is the value
  a hole reads as.
\<close>

definition array_get :: "'a \<Rightarrow> 'a list \<Rightarrow> nat \<Rightarrow> 'a" where
  "array_get hole xs i = (if i < length xs then xs ! i else hole)"

definition array_set :: "'a \<Rightarrow> 'a list \<Rightarrow> nat \<Rightarrow> 'a \<Rightarrow> 'a list" where
  "array_set hole xs i v =
     (if i < length xs then xs[i := v]
      else xs @ replicate (i - length xs) hole @ [v])"

definition nth_opt :: "'a option list \<Rightarrow> nat \<Rightarrow> 'a option" where
  "nth_opt xs i = (if i < length xs then xs ! i else None)"

text \<open>Reading a field of a record: an absent field reads \<open>undefined\<close>.\<close>

definition getField :: "(string \<times> jsval) list \<Rightarrow> string \<Rightarrow> jsval" where
  "getField fs f = (case map_of fs f of None \<Rightarrow> VUndefined | Some v \<Rightarrow> v)"

fun row_val :: "row \<Rightarrow> jsval" where
  "row_val RUndefined = VUndefined"
| "row_val RNull = VNull"
| "row_val (RObj fs) = VObj fs"

section \<open>Parameters, results and providers\<close>

text \<open>
  A parameter object of a fetch method. One record serves the three fetch methods; a
  property that an object does not have reads \<open>undefined\<close>. \<open>keys\<close> is the sequence
  that \<open>keys.forEach\<close> visits.
\<close>

record fetch_params =
  attributes :: attr
  keys :: "jsval list option"
  scope :: jsval
  clientId :: jsval
  filterCriterion :: jsval
  offset :: jsval
  size_param :: jsval
  sortCriteria :: jsval

definition no_params :: fetch_params where
  "no_params = \<lparr>attributes = AUndefined, keys = None, scope = VUndefined,
     clientId = VUndefined, filterCriterion = VUndefined, offset = VUndefined,
     size_param = VUndefined, sortCriteria = VUndefined\<rparr>"

record item =
  metadata :: jsval
  data :: row

text \<open>
  Modelled from the spec: the key map of a result set (\<open>ojMap\<close>, or the map a provider
  returns as \<open>results\<close>), of the imported module \<open>ojs/ojmap\<close>. Its \<open>get\<close> matches
  by equality on the key value, composite (array-shaped) keys included; \<open>set\<close> replaces the
  entry of an equal key or adds one; \<open>size\<close> is zero for the map without entries.
\<close>

type_synonym keymap = "(jsval \<times> item) list"

definition keymap_get :: "keymap \<Rightarrow> jsval \<Rightarrow> item option" where
  "keymap_get m k = map_of m k"

definition keymap_set :: "keymap \<Rightarrow> jsval \<Rightarrow> item \<Rightarrow> keymap" where
  "keymap_set m k v = AList.update k v m"

text \<open>
  What the promise of a provider's \<open>fetchByKeys\<close> is fulfilled with: \<open>undefined\<close> or
  \<open>null\<close>, or an object whose \<open>results\<close> is \<open>undefined\<close> or a key map.
\<close>

datatype fbk_result = ResNull | ResObj "keymap option"

record fbo_result =
  fbo_results :: "item list option"
  fbo_done :: jsval

text \<open>
  What \<open>next\<close> of an iterator is fulfilled with: \<open>undefined\<close>, or an object whose
  \<open>value\<close> is \<open>undefined\<close> or a page, of which the joining provider reads and writes
  \<open>data\<close>.
\<close>

record fetch_list_result =
  flr_data :: "row list option"
  flr_metadata :: "jsval list"

record iter_result =
  ir_done :: jsval
  ir_value :: "fetch_list_result option"

text \<open>
  A data provider as the joining provider uses it. \<open>getCapability\<close> answers \<open>null\<close>
  (\<open>None\<close>) or a capability object, of which only \<open>implementation\<close> is read. The fetch
  methods return promises: the model gives the settled outcome, \<open>Inl\<close> a rejection.
  The iterator of \<open>fetchFirst\<close> is given by the outcomes of its successive \<open>next\<close>.
\<close>

record data_provider =
  dp_getCapability :: "string \<Rightarrow> string option option"
  dp_fetchByKeys :: "fetch_params option \<Rightarrow> js_error + fbk_result"
  dp_fetchByOffset :: "fetch_params option \<Rightarrow> js_error + fbo_result option"
  dp_fetchFirst :: "fetch_params option \<Rightarrow> nat \<Rightarrow> js_error + iter_result option"

section \<open>The joining provider\<close>

datatype fk = FkNull | FkField string | FkFields "string list"

record fk_mapping =
  foreignKey :: "string option"
  foreignKeys :: "string list option"
  fk_transform :: "((string \<times> jsval) list \<Rightarrow> jsval) option"

record join_info =
  foreignKeyMapping :: "fk_mapping option"
  joinedDataProvider :: "data_provider option"

text \<open>
  \<open>options.joins\<close> is an object from alias to join information; the list is in the order
  of \<open>Object.keys\<close>. \<open>None\<close> stands for \<open>undefined\<close> and \<open>null\<close> throughout.
\<close>

type_synonym joins = "(string \<times> join_info option) list"

record jdp =
  baseDataProvider :: data_provider
  options_joins :: "joins option"
  mapJoinAttributes :: "(string \<rightharpoonup> attr) option"
  fks :: "fk list"
  transform :: "((string \<times> jsval) list \<Rightarrow> jsval) option list"
  joinDPs :: "data_provider option list"
  joinAlias :: "string list"

subsection \<open>\<open>_getJoinSpec\<close> and the constructor\<close>

fun getJoinSpec_loop :: "joins \<Rightarrow> nat \<Rightarrow> jdp \<Rightarrow> js_error + jdp" where
  "getJoinSpec_loop [] i p = Inr p"
| "getJoinSpec_loop ((alias, joinInfo) # js) i p =
     (case joinInfo of
        Some info \<Rightarrow>
          (case foreignKeyMapping info of
             None \<Rightarrow> Inl (TypeError ''Cannot read properties of undefined (reading foreignKey)'')
           | Some fkm \<Rightarrow>
               getJoinSpec_loop js (Suc i)
                 (p\<lparr>fks := array_set FkNull (fks p) i
                       (case foreignKey fkm of
                          Some f \<Rightarrow> FkField f
                        | None \<Rightarrow> (case foreignKeys fkm of Some fs \<Rightarrow> FkFields fs | None \<Rightarrow> FkNull)),
                    transform := array_set None (transform p) i (fk_transform fkm),
                    joinDPs := array_set None (joinDPs p) i (joinedDataProvider info)\<rparr>))
      | None \<Rightarrow>
          getJoinSpec_loop js (Suc i)
            (p\<lparr>fks := array_set FkNull (fks p) i FkNull,
               joinDPs := array_set None (joinDPs p) i None\<rparr>))"

definition getJoinSpec :: "jdp \<Rightarrow> joins option \<Rightarrow> js_error + jdp" where
  "getJoinSpec p js =
     (case js of
        None \<Rightarrow> Inl (TypeError ''Cannot convert undefined or null to object'')
      | Some j \<Rightarrow> getJoinSpec_loop j 0 (p\<lparr>joinAlias := map fst j\<rparr>))"

definition new_JoiningDataProvider :: "data_provider \<Rightarrow> joins option \<Rightarrow> js_error + jdp" where
  "new_JoiningDataProvider base js =
     getJoinSpec \<lparr>baseDataProvider = base, options_joins = js,
        mapJoinAttributes = Some Map.empty, fks = [], transform = [], joinDPs = [],
        joinAlias = []\<rparr> js"

subsection \<open>\<open>_seperateBaseJoinAttributes\<close>\<close>

text \<open>
  The elements \<open>origAttr[i]\<close> for \<open>i < origAttr.length\<close>: those of an array, the
  one-character strings of a string; an attribute object has no \<open>length\<close>, and
  \<open>length\<close> cannot be read from \<open>null\<close> or \<open>undefined\<close>.
\<close>

fun attr_elems :: "attr \<Rightarrow> js_error + attr list" where
  "attr_elems (AArr xs) = Inr xs"
| "attr_elems (AStr s) = Inr (map (\<lambda>c. AStr [c]) s)"
| "attr_elems (AObj n a) = Inr []"
| "attr_elems ANull = Inl (TypeError ''Cannot read properties of null (reading length)'')"
| "attr_elems AUndefined = Inl (TypeError ''Cannot read properties of undefined (reading length)'')"

text \<open>
  \<open>alias\<close> and \<open>attributes\<close> of one requested attribute: both the string itself for a
  string, else the properties \<open>name\<close> and \<open>attributes\<close>, which an array does not have and
  which cannot be read from \<open>null\<close> or \<open>undefined\<close>.
\<close>

fun attr_parts :: "attr \<Rightarrow> js_error + (string option \<times> attr)" where
  "attr_parts (AStr s) = Inr (Some s, AStr s)"
| "attr_parts (AObj n a) = Inr (Some n, a)"
| "attr_parts (AArr xs) = Inr (None, AUndefined)"
| "attr_parts ANull = Inl (TypeError ''Cannot read properties of null (reading name)'')"
| "attr_parts AUndefined = Inl (TypeError ''Cannot read properties of undefined (reading name)'')"

text \<open>\<open>joinAttrs.concat\<close> is a method of arrays and strings only.\<close>

fun has_concat :: "attr \<Rightarrow> bool" where
  "has_concat (AArr xs) = True"
| "has_concat (AStr s) = True"
| "has_concat _ = False"

text \<open>
  The first loop: the state is \<open>iBase\<close>, \<open>baseAttributes\<close> and the map of join attributes.
  The result of \<open>joinAttrs.concat(attributes)\<close> is dropped by the source, so the map keeps
  \<open>joinAttrs\<close>.
\<close>

fun classify ::
  "string list \<Rightarrow> attr list \<Rightarrow> nat \<Rightarrow> attr list \<Rightarrow> (string \<rightharpoonup> attr)
     \<Rightarrow> (string \<rightharpoonup> attr) \<times> (js_error + nat \<times> attr list)" where
  "classify al [] iBase base m = (m, Inr (iBase, base))"
| "classify al (x # xs) iBase base m =
     (case attr_parts x of
        Inl e \<Rightarrow> (m, Inl e)
      | Inr (alias, attrs) \<Rightarrow>
          (case alias of
             None \<Rightarrow> classify al xs (Suc iBase) (array_set AUndefined base iBase attrs) m
           | Some n \<Rightarrow>
               if n \<in> set al then
                 (case m n of
                    Some joinAttrs \<Rightarrow>
                      if attr_defined attrs then
                        (let joinAttrs' = (if attr_defined joinAttrs then joinAttrs else AArr [])
                         in if has_concat joinAttrs'
                            then classify al xs iBase base (m(n \<mapsto> joinAttrs'))
                            else (m, Inl (TypeError ''joinAttrs.concat is not a function'')))
                      else classify al xs iBase base m
                  | None \<Rightarrow> classify al xs iBase base (m(n \<mapsto> attrs)))
               else classify al xs (Suc iBase) (array_set AUndefined base iBase attrs) m))"

fun fk_attr :: "fk \<Rightarrow> attr" where
  "fk_attr FkNull = ANull"
| "fk_attr (FkField f) = AStr f"
| "fk_attr (FkFields fs) = AArr (map AStr fs)"

text \<open>
  \<open>baseAttributes.includes(fk)\<close>: strings and \<open>null\<close> are compared by value, an array by
  identity, and the descriptor array of the options is not an element of the list.
\<close>

fun includes_fk :: "attr list \<Rightarrow> fk \<Rightarrow> bool" where
  "includes_fk base (FkFields fs) = False"
| "includes_fk base k = (fk_attr k \<in> set base)"

text \<open>The second loop; \<open>concat\<close> builds a longer list and leaves \<open>iBase\<close> as it is.\<close>

fun append_fks :: "fk list \<Rightarrow> nat \<Rightarrow> attr list \<Rightarrow> attr list" where
  "append_fks [] iBase base = base"
| "append_fks (k # ks) iBase base =
     (if \<not> includes_fk base k then
        (case k of
           FkFields fs \<Rightarrow> append_fks ks iBase (base @ map AStr fs)
         | _ \<Rightarrow> append_fks ks (Suc iBase) (array_set AUndefined base iBase (fk_attr k)))
      else append_fks ks iBase base)"

text \<open>
  The map of join attributes is a field of the provider, set to a new map before anything
  is read, and it keeps what was entered when the method throws.
\<close>

definition seperateBaseJoinAttributes :: "jdp \<Rightarrow> fetch_params \<Rightarrow> jdp \<times> (js_error + attr list)" where
  "seperateBaseJoinAttributes p params =
     (case attr_elems (attributes params) of
        Inl e \<Rightarrow> (p\<lparr>mapJoinAttributes := Some Map.empty\<rparr>, Inl e)
      | Inr origAttr \<Rightarrow>
          (case classify (joinAlias p) origAttr 0 [] Map.empty of
             (m, Inl e) \<Rightarrow> (p\<lparr>mapJoinAttributes := Some m\<rparr>, Inl e)
           | (m, Inr (iBase, base)) \<Rightarrow>
               (p\<lparr>mapJoinAttributes := Some m\<rparr>, Inr (append_fks (fks p) iBase base))))"

text \<open>The entry of an alias in the map of join attributes, \<open>None\<close> without map or entry.\<close>

definition joinAttributesOf :: "jdp \<Rightarrow> string \<Rightarrow> attr option" where
  "joinAttributesOf p n = (case mapJoinAttributes p of None \<Rightarrow> None | Some m \<Rightarrow> m n)"

subsection \<open>\<open>_getFKValues\<close>\<close>

text \<open>
  The object handed to a transform: one property per field of the descriptor, set in
  descriptor order.
\<close>

definition transformParam :: "(string \<times> jsval) list \<Rightarrow> fk \<Rightarrow> (string \<times> jsval) list" where
  "transformParam r k =
     (case k of
        FkFields ns \<Rightarrow> fold (\<lambda>n obj. AList.update n (getField r n) obj) ns []
      | FkField n \<Rightarrow> [(n, getField r n)]
      | FkNull \<Rightarrow> [])"

text \<open>\<open>vals[j]\<close> for one row, one descriptor and the transform of the alias, if any.\<close>

definition fkValue ::
  "row \<Rightarrow> fk \<Rightarrow> ((string \<times> jsval) list \<Rightarrow> jsval) option \<Rightarrow> jsval" where
  "fkValue r k t =
     (case r of
        RObj fs \<Rightarrow>
          (if k \<noteq> FkNull then
             (case t of
                Some tf \<Rightarrow> tf (transformParam fs k)
              | None \<Rightarrow>
                  (case k of
                     FkFields ns \<Rightarrow> VArr (map (getField fs) ns)
                   | FkField n \<Rightarrow> getField fs n
                   | FkNull \<Rightarrow> VNull))
           else VNull)
      | _ \<Rightarrow> VNull)"

definition getFKValues ::
  "row list \<Rightarrow> fk list \<Rightarrow> ((string \<times> jsval) list \<Rightarrow> jsval) option list \<Rightarrow> jsval list list" where
  "getFKValues baseData ks ts =
     map (\<lambda>i. map (\<lambda>r. fkValue r (ks ! i) (nth_opt ts i)) baseData) [0..<length ks]"

text \<open>\<open>fkValues[i]\<close>, \<open>undefined\<close> beyond the length.\<close>

definition fkValues_at :: "jsval list list \<Rightarrow> nat \<Rightarrow> jsval list option" where
  "fkValues_at fkValues i = (if i < length fkValues then Some (fkValues ! i) else None)"

subsection \<open>\<open>_fetchByKeyResultsToArray\<close> and \<open>_assignAliasData\<close>\<close>

fun toArray_loop ::
  "keymap \<Rightarrow> jsval list \<Rightarrow> nat \<Rightarrow> jsval list \<Rightarrow> row list \<Rightarrow> jsval list \<times> row list" where
  "toArray_loop m [] i md dt = (md, dt)"
| "toArray_loop m (k # ks) i md dt =
     (case keymap_get m k of
        Some it \<Rightarrow>
          toArray_loop m ks (Suc i)
            (array_set VUndefined md i (metadata it)) (array_set RUndefined dt i (data it))
      | None \<Rightarrow>
          toArray_loop m ks (Suc i)
            (array_set VUndefined md i VNull) (array_set RUndefined dt i RNull))"

text \<open>
  The arrays \<open>metaData\<close> and \<open>data\<close> are written in place by the source; the model returns
  them. Nothing is written when the result, its \<open>results\<close> or the entries are missing.
\<close>

definition fetchByKeyResultsToArray ::
  "fbk_result \<Rightarrow> jsval list option \<Rightarrow> jsval list \<Rightarrow> row list
     \<Rightarrow> js_error + jsval list \<times> row list" where
  "fetchByKeyResultsToArray result keyValues md dt =
     (case result of
        ResObj (Some m) \<Rightarrow>
          if m \<noteq> [] then
            (case keyValues of
               None \<Rightarrow> Inl (TypeError ''Cannot read properties of undefined (reading length)'')
             | Some ks \<Rightarrow> Inr (toArray_loop m ks 0 md dt))
          else Inr (md, dt)
      | _ \<Rightarrow> Inr (md, dt))"

fun assign_loop :: "row list \<Rightarrow> nat \<Rightarrow> string \<Rightarrow> row list \<Rightarrow> row list" where
  "assign_loop [] i alias aliasData = []"
| "assign_loop (r # rs) i alias aliasData =
     (case r of
        RObj fs \<Rightarrow> RObj (AList.update alias (row_val (array_get RUndefined aliasData i)) fs)
      | _ \<Rightarrow> r) # assign_loop rs (Suc i) alias aliasData"

text \<open>The rows are objects changed in place; the model returns the changed page.\<close>

definition assignAliasData :: "row list \<Rightarrow> string \<Rightarrow> row list \<Rightarrow> row list" where
  "assignAliasData baseData alias aliasData = assign_loop baseData 0 alias aliasData"

subsection \<open>\<open>_joiningData\<close>\<close>

text \<open>
  What a fetch does to its collaborators, in order: a warning logged for an alias, a
  \<open>fetchByKeys\<close> issued to the joined provider of the alias at an index, a call of the
  base provider with the reference it is handed and the object found there.
\<close>

datatype event =
    Warned string
  | FetchByKeysCall nat fetch_params
  | BaseCall "nat option" "fetch_params option"

text \<open>
  The loop that issues the fetches. \<open>joinDP.getCapability\<close> is read before \<open>joinDP\<close> is
  compared with \<open>null\<close>, so the comparison of the source is reached with a provider only.
\<close>

fun issue_fetches ::
  "jdp \<Rightarrow> jsval list list \<Rightarrow> string list \<Rightarrow> nat
     \<Rightarrow> event list \<times> (js_error + (js_error + fbk_result) option list)" where
  "issue_fetches p fkValues [] i = ([], Inr [])"
| "issue_fetches p fkValues (alias # as) i =
     (case nth_opt (joinDPs p) i of
        None \<Rightarrow> ([], Inl (TypeError ''Cannot read properties of null (reading getCapability)''))
      | Some joinDP \<Rightarrow>
          (let w = (case dp_getCapability joinDP ''fetchByKeys'' of
                      None \<Rightarrow> [Warned alias]
                    | Some impl \<Rightarrow> if impl \<noteq> Some ''batchLookup'' then [Warned alias] else []);
               call = (\<lambda>ps. ([FetchByKeysCall i ps], Some (dp_fetchByKeys joinDP (Some ps))));
               (ev, promise) =
                 (case mapJoinAttributes p of
                    None \<Rightarrow> call (no_params\<lparr>keys := fkValues_at fkValues i\<rparr>)
                  | Some m \<Rightarrow>
                      (case m alias of
                         None \<Rightarrow> ([], None)
                       | Some a \<Rightarrow>
                           call (no_params\<lparr>keys := fkValues_at fkValues i, attributes := a\<rparr>)))
           in case issue_fetches p fkValues as (Suc i) of
                (evs, Inl e) \<Rightarrow> (w @ ev @ evs, Inl e)
              | (evs, Inr promises) \<Rightarrow> (w @ ev @ evs, Inr (promise # promises))))"

text \<open>
  \<open>Promise.all\<close>: \<open>null\<close> passes through as a value; a rejection rejects the whole (the
  model takes the first in index order).
\<close>

fun promise_all :: "(js_error + fbk_result) option list \<Rightarrow> js_error + fbk_result list" where
  "promise_all [] = Inr []"
| "promise_all (None # ps) =
     (case promise_all ps of Inl e \<Rightarrow> Inl e | Inr rs \<Rightarrow> Inr (ResNull # rs))"
| "promise_all (Some (Inl e) # ps) = Inl e"
| "promise_all (Some (Inr r) # ps) =
     (case promise_all ps of Inl e \<Rightarrow> Inl e | Inr rs \<Rightarrow> Inr (r # rs))"

text \<open>
  The loop over the results; \<open>resultMetadata\<close> and \<open>resultData\<close> are declared once, before
  the loop, and live across the aliases.
\<close>

fun merge_results ::
  "jdp \<Rightarrow> jsval list list \<Rightarrow> string list \<Rightarrow> fbk_result list \<Rightarrow> nat
     \<Rightarrow> jsval list \<Rightarrow> row list \<Rightarrow> row list \<Rightarrow> js_error + row list" where
  "merge_results p fkValues (alias # as) (r # rs) i md dt baseData =
     (if (case mapJoinAttributes p of None \<Rightarrow> True | Some m \<Rightarrow> m alias \<noteq> None) then
        (case fetchByKeyResultsToArray r (fkValues_at fkValues i) md dt of
           Inl e \<Rightarrow> Inl e
         | Inr (md', dt') \<Rightarrow>
             merge_results p fkValues as rs (Suc i) md' dt' (assignAliasData baseData alias dt'))
      else merge_results p fkValues as rs (Suc i) md dt baseData)"
| "merge_results p fkValues as rs i md dt baseData = Inr baseData"

definition joiningData :: "jdp \<Rightarrow> row list option \<Rightarrow> event list \<times> (js_error + row list option)" where
  "joiningData p baseData =
     (case baseData of
        None \<Rightarrow> ([], Inr None)
      | Some bd \<Rightarrow>
          if bd = [] \<or> (case options_joins p of None \<Rightarrow> True | Some j \<Rightarrow> False)
          then ([], Inr (Some bd))
          else
            (let fkValues = getFKValues bd (fks p) (transform p)
             in case issue_fetches p fkValues (joinAlias p) 0 of
                  (ev, Inl e) \<Rightarrow> (ev, Inl e)
                | (ev, Inr promises) \<Rightarrow>
                    (case promise_all promises of
                       Inl e \<Rightarrow> (ev, Inl e)
                     | Inr results \<Rightarrow>
                         (case merge_results p fkValues (joinAlias p) results 0 [] [] bd of
                            Inl e \<Rightarrow> (ev, Inl e)
                          | Inr joined \<Rightarrow> (ev, Inr (Some joined))))))"

subsection \<open>The fetch methods\<close>

text \<open>
  Parameter objects live in a store, a reference being an index into it, so that a write
  through one reference is seen through every other; \<open>None\<close> is \<open>undefined\<close>. A fetch
  returns the store and the provider as it leaves them, the events in order, and the
  outcome: \<open>Inl\<close> for an exception or a rejected promise.
\<close>

type_synonym store = "fetch_params list"

definition deref :: "store \<Rightarrow> nat option \<Rightarrow> fetch_params option" where
  "deref h r = (case r of None \<Rightarrow> None | Some a \<Rightarrow> if a < length h then Some (h ! a) else None)"

record 'a fetch_out =
  store_after :: store
  provider_after :: jdp
  events :: "event list"
  outcome :: "js_error + 'a"

definition fetch_out :: "store \<Rightarrow> jdp \<Rightarrow> event list \<Rightarrow> js_error + 'a \<Rightarrow> 'a fetch_out" where
  "fetch_out h p ev out = \<lparr>store_after = h, provider_after = p, events = ev, outcome = out\<rparr>"

record fetchByKeysResults =
  fbk_fetchParameters :: "nat option"
  fbk_results :: keymap

record fetchByOffsetResults =
  fbo_fetchParameters :: "nat option"
  fbo_items :: "item list"
  fbo_done_flag :: jsval

record joiningAsyncIterable =
  it_params :: "nat option"
  it_asyncIterator :: "nat \<Rightarrow> js_error + iter_result option"

text \<open>
  The first lines of \<open>fetchByKeys\<close> and \<open>fetchByOffset\<close>: with attributes in the request
  the base parameters are a new object, built by the function given; else they are
  \<open>params\<close> itself, and the map of join attributes is set to \<open>null\<close>.
\<close>

definition base_params ::
  "(fetch_params \<Rightarrow> attr list \<Rightarrow> fetch_params) \<Rightarrow> jdp \<Rightarrow> store \<Rightarrow> nat option
     \<Rightarrow> jdp \<times> store \<times> (js_error + nat option)" where
  "base_params build p h params =
     (case deref h params of
        Some obj \<Rightarrow>
          if attr_truthy (attributes obj) then
            (case seperateBaseJoinAttributes p obj of
               (p', Inl e) \<Rightarrow> (p', h, Inl e)
             | (p', Inr baseAttributes) \<Rightarrow> (p', h @ [build obj baseAttributes], Inr (Some (length h))))
          else (p\<lparr>mapJoinAttributes := None\<rparr>, h, Inr params)
      | None \<Rightarrow> (p\<lparr>mapJoinAttributes := None\<rparr>, h, Inr params))"

fun set_items :: "jsval list \<Rightarrow> nat \<Rightarrow> jsval list \<Rightarrow> row list \<Rightarrow> keymap \<Rightarrow> keymap" where
  "set_items [] i metaData joinData results = results"
| "set_items (key # ks) i metaData joinData results =
     set_items ks (Suc i) metaData joinData
       (keymap_set results key
          \<lparr>metadata = array_get VUndefined metaData i, data = array_get RUndefined joinData i\<rparr>)"

text \<open>The callback of \<open>fetchByKeys\<close>, run with what the base provider resolved.\<close>

definition fetchByKeys_then ::
  "jdp \<Rightarrow> store \<Rightarrow> nat option \<Rightarrow> fbk_result
     \<Rightarrow> event list \<times> (js_error + fetchByKeysResults option)" where
  "fetchByKeys_then p h params baseResults =
     (case baseResults of
        ResObj (Some m) \<Rightarrow>
          (case deref h params of
             None \<Rightarrow> ([], Inl (TypeError ''Cannot read properties of undefined (reading keys)''))
           | Some obj \<Rightarrow>
               (case keys obj of
                  None \<Rightarrow> ([], Inl (TypeError ''Cannot read properties of undefined (reading forEach)''))
                | Some keyValues \<Rightarrow>
                    (case fetchByKeyResultsToArray baseResults (Some keyValues) [] [] of
                       Inl e \<Rightarrow> ([], Inl e)
                     | Inr (metaData, dt) \<Rightarrow>
                         (case joiningData p (Some dt) of
                            (ev, Inl e) \<Rightarrow> (ev, Inl e)
                          | (ev, Inr None) \<Rightarrow>
                              (ev, if keyValues = []
                                   then Inr (Some \<lparr>fbk_fetchParameters = params, fbk_results = []\<rparr>)
                                   else Inl (TypeError ''Cannot read properties of undefined (reading 0)''))
                          | (ev, Inr (Some joinData)) \<Rightarrow>
                              (ev, Inr (Some \<lparr>fbk_fetchParameters = params,
                                 fbk_results = set_items keyValues 0 metaData joinData []\<rparr>))))))
      | _ \<Rightarrow> ([], Inr None))"

definition fetchByKeys :: "jdp \<Rightarrow> store \<Rightarrow> nat option \<Rightarrow> fetchByKeysResults option fetch_out" where
  "fetchByKeys p h params =
     (case base_params
             (\<lambda>obj baseAttributes. no_params\<lparr>keys := keys obj,
                attributes := AArr baseAttributes, scope := scope obj\<rparr>) p h params of
        (p', h', Inl e) \<Rightarrow> fetch_out h' p' [] (Inl e)
      | (p', h', Inr baseParams) \<Rightarrow>
          (case dp_fetchByKeys (baseDataProvider p') (deref h' baseParams) of
             Inl e \<Rightarrow> fetch_out h' p' [BaseCall baseParams (deref h' baseParams)] (Inl e)
           | Inr baseResults \<Rightarrow>
               (case fetchByKeys_then p' h' params baseResults of
                  (ev, out) \<Rightarrow>
                    fetch_out h' p' (BaseCall baseParams (deref h' baseParams) # ev) out)))"

definition fetchByOffset_then ::
  "jdp \<Rightarrow> nat option \<Rightarrow> fbo_result option
     \<Rightarrow> event list \<times> (js_error + fetchByOffsetResults option)" where
  "fetchByOffset_then p params baseResult =
     (case baseResult of
        None \<Rightarrow> ([], Inl (TypeError ''Cannot read properties of undefined (reading results)''))
      | Some br \<Rightarrow>
          (case fbo_results br of
             None \<Rightarrow> ([], Inr None)
           | Some its \<Rightarrow>
               (case joiningData p (Some (map data its)) of
                  (ev, Inl e) \<Rightarrow> (ev, Inl e)
                | (ev, Inr None) \<Rightarrow>
                    (ev, if its = [] then Inr (Some \<lparr>fbo_fetchParameters = params, fbo_items = [],
                                                  fbo_done_flag = fbo_done br\<rparr>)
                         else Inl (TypeError ''Cannot read properties of undefined (reading 0)''))
                | (ev, Inr (Some joinData)) \<Rightarrow>
                    (ev, Inr (Some \<lparr>fbo_fetchParameters = params,
                       fbo_items =
                         map (\<lambda>i. \<lparr>metadata = array_get VUndefined (map metadata its) i,
                                   data = array_get RUndefined joinData i\<rparr>) [0..<length its],
                       fbo_done_flag = fbo_done br\<rparr>)))))"

definition fetchByOffset :: "jdp \<Rightarrow> store \<Rightarrow> nat option \<Rightarrow> fetchByOffsetResults option fetch_out" where
  "fetchByOffset p h params =
     (case base_params
             (\<lambda>obj baseAttributes. no_params\<lparr>attributes := AArr baseAttributes,
                clientId := clientId obj, filterCriterion := filterCriterion obj,
                offset := offset obj, size_param := size_param obj,
                sortCriteria := sortCriteria obj\<rparr>) p h params of
        (p', h', Inl e) \<Rightarrow> fetch_out h' p' [] (Inl e)
      | (p', h', Inr baseParams) \<Rightarrow>
          (case dp_fetchByOffset (baseDataProvider p') (deref h' baseParams) of
             Inl e \<Rightarrow> fetch_out h' p' [BaseCall baseParams (deref h' baseParams)] (Inl e)
           | Inr baseResult \<Rightarrow>
               (case fetchByOffset_then p' params baseResult of
                  (ev, out) \<Rightarrow>
                    fetch_out h' p' (BaseCall baseParams (deref h' baseParams) # ev) out)))"

text \<open>
  \<open>fetchFirst\<close>: \<open>baseParams\<close> is \<open>params\<close> itself, and the attributes computed are written
  into that object.
\<close>

definition fetchFirst :: "jdp \<Rightarrow> store \<Rightarrow> nat option \<Rightarrow> joiningAsyncIterable fetch_out" where
  "fetchFirst p h params =
     (let call = (\<lambda>p' h'.
            fetch_out h' p' [BaseCall params (deref h' params)]
              (Inr \<lparr>it_params = params,
                    it_asyncIterator = dp_fetchFirst (baseDataProvider p') (deref h' params)\<rparr>))
      in case params of
           None \<Rightarrow> call (p\<lparr>mapJoinAttributes := None\<rparr>) h
         | Some a \<Rightarrow>
             (case deref h params of
                None \<Rightarrow> call (p\<lparr>mapJoinAttributes := None\<rparr>) h
              | Some obj \<Rightarrow>
                  if attr_truthy (attributes obj) then
                    (case seperateBaseJoinAttributes p obj of
                       (p', Inl e) \<Rightarrow> fetch_out h p' [] (Inl e)
                     | (p', Inr baseAttributes) \<Rightarrow>
                         call p' (h[a := obj\<lparr>attributes := AArr baseAttributes\<rparr>]))
                  else call (p\<lparr>mapJoinAttributes := None\<rparr>) h))"

text \<open>\<open>next\<close> of the joining iterator, run with the outcome of the base iterator's \<open>next\<close>.\<close>

definition iterator_next ::
  "jdp \<Rightarrow> js_error + iter_result option \<Rightarrow> event list \<times> (js_error + iter_result option)" where
  "iterator_next parent baseNext =
     (case baseNext of
        Inl e \<Rightarrow> ([], Inl e)
      | Inr None \<Rightarrow> ([], Inr None)
      | Inr (Some baseResult) \<Rightarrow>
          (case ir_value baseResult of
             None \<Rightarrow> ([], Inr (Some baseResult))
           | Some v \<Rightarrow>
               (case joiningData parent (flr_data v) of
                  (ev, Inl e) \<Rightarrow> (ev, Inl e)
                | (ev, Inr joinedData) \<Rightarrow>
                    (ev, Inr (Some (baseResult\<lparr>ir_value := Some (v\<lparr>flr_data := joinedData\<rparr>)\<rparr>))))))"

section \<open>The deferred provider\<close>

text \<open>
  The provider wraps a promise. The model holds the settled outcome of that promise, a
  value of any type, and \<open>this.dataProvider\<close>, where the first provider that resolved is
  kept. \<open>DataProviderFeatureChecker.isDataProvider\<close>, of the imported module
  \<open>ojs/ojcomponentcore\<close>, is the parameter \<open>check\<close>: called on the resolved value
  without any guard, it answers, or it throws. What each operation of the resolved value
  yields is a parameter too.
\<close>

record 'd deferred =
  dd_promise :: "js_error + 'd"
  dd_dataProvider :: "'d option"

datatype 'd dd_call =
    FetchFirstOn 'd "fetch_params option"
  | FetchByKeysOn 'd "fetch_params option"
  | ContainsKeysOn 'd "fetch_params option"
  | FetchByOffsetOn 'd "fetch_params option"
  | GetTotalSizeOn 'd

definition invalid_data_type :: js_error where
  "invalid_data_type = JsError ''Invalid data type. DeferredDataProvider takes a Promise<DataProvider>''"

definition getDataProvider ::
  "('d \<Rightarrow> js_error + bool) \<Rightarrow> 'd deferred \<Rightarrow> 'd deferred \<times> (js_error + 'd)" where
  "getDataProvider check self =
     (case dd_promise self of
        Inl e \<Rightarrow> (self, Inl e)
      | Inr dataProvider \<Rightarrow>
          (case check dataProvider of
             Inl e \<Rightarrow> (self, Inl e)
           | Inr isDataProvider \<Rightarrow>
               if isDataProvider then
                 (case dd_dataProvider self of
                    None \<Rightarrow> (self\<lparr>dd_dataProvider := Some dataProvider\<rparr>, Inr dataProvider)
                  | Some d \<Rightarrow> (self, Inr dataProvider))
               else (self, Inl invalid_data_type)))"

text \<open>
  A method that chains one operation on the promise of \<open>_getDataProvider\<close>: the state
  after, the operations invoked on the resolved value, and the outcome of the promise
  returned.
\<close>

definition deferred_then ::
  "('d \<Rightarrow> js_error + bool) \<Rightarrow> ('d dd_call \<Rightarrow> js_error + 'r) \<Rightarrow> 'd deferred \<Rightarrow> ('d \<Rightarrow> 'd dd_call)
     \<Rightarrow> 'd deferred \<times> 'd dd_call list \<times> (js_error + 'r)" where
  "deferred_then check run self op =
     (case getDataProvider check self of
        (self', Inl e) \<Rightarrow> (self', [], Inl e)
      | (self', Inr dataProvider) \<Rightarrow> (self', [op dataProvider], run (op dataProvider)))"

definition deferred_fetchByKeys where
  "deferred_fetchByKeys check run self params =
     deferred_then check run self (\<lambda>dataProvider. FetchByKeysOn dataProvider params)"

definition deferred_containsKeys where
  "deferred_containsKeys check run self params =
     deferred_then check run self (\<lambda>dataProvider. ContainsKeysOn dataProvider params)"

definition deferred_fetchByOffset where
  "deferred_fetchByOffset check run self params =
     deferred_then check run self (\<lambda>dataProvider. FetchByOffsetOn dataProvider params)"

definition deferred_getTotalSize where
  "deferred_getTotalSize check run self =
     deferred_then check run self (\<lambda>dataProvider. GetTotalSizeOn dataProvider)"

text \<open>
  \<open>fetchFirst\<close> returns an iterable at once; it holds the promise of the iterator of the
  resolved provider. \<open>next\<close> chains the iterator's \<open>next\<close> on that promise.
\<close>

datatype 'i asyncIterable = AsyncIterable "js_error + 'i"

definition deferred_fetchFirst ::
  "('d \<Rightarrow> js_error + bool) \<Rightarrow> ('d dd_call \<Rightarrow> js_error + 'i) \<Rightarrow> 'd deferred \<Rightarrow> fetch_params option
     \<Rightarrow> 'd deferred \<times> 'd dd_call list \<times> 'i asyncIterable" where
  "deferred_fetchFirst check run self params =
     (case deferred_then check run self (\<lambda>dataProvider. FetchFirstOn dataProvider params) of
        (self', calls, asyncIteratorPromise) \<Rightarrow> (self', calls, AsyncIterable asyncIteratorPromise))"

fun deferred_next :: "('i \<Rightarrow> js_error + 'r) \<Rightarrow> 'i asyncIterable \<Rightarrow> 'i list \<times> (js_error + 'r)" where
  "deferred_next nxt (AsyncIterable (Inl e)) = ([], Inl e)"
| "deferred_next nxt (AsyncIterable (Inr asyncIterator)) = ([asyncIterator], nxt asyncIterator)"

section \<open>Example data\<close>

text \<open>
  An in-memory provider over a table of items by key: \<open>fetchByKeys\<close> resolves to the
  entries of the requested keys that the table has, and the capability names
  \<open>batchLookup\<close>.
\<close>

definition requested :: "fetch_params option \<Rightarrow> jsval \<Rightarrow> bool" where
  "requested ps k =
     (case ps of
        None \<Rightarrow> False
      | Some q \<Rightarrow> (case keys q of None \<Rightarrow> False | Some ks \<Rightarrow> k \<in> set ks))"

definition table_provider :: "keymap \<Rightarrow> data_provider" where
  "table_provider t =
     \<lparr>dp_getCapability = (\<lambda>n. Some (Some ''batchLookup'')),
      dp_fetchByKeys = (\<lambda>ps. Inr (ResObj (Some (filter (\<lambda>e. requested ps (fst e)) t)))),
      dp_fetchByOffset = (\<lambda>ps. Inr (Some \<lparr>fbo_results = Some (map snd t), fbo_done = VBool True\<rparr>)),
      dp_fetchFirst = (\<lambda>ps n. Inr (Some \<lparr>ir_done = VBool True, ir_value = None\<rparr>))\<rparr>"

definition entry :: "int \<Rightarrow> (string \<times> jsval) list \<Rightarrow> jsval \<times> item" where
  "entry k fs = (VNum k, \<lparr>metadata = VObj [(''key'', VNum k)], data = RObj fs\<rparr>)"

definition departments :: keymap where
  "departments = [entry 10 [(''name'', VStr ''Eng'')], entry 20 [(''name'', VStr ''Sales'')]]"

definition employees :: keymap where
  "employees =
     [entry 1 [(''id'', VNum 1), (''deptId'', VNum 10), (''locId'', VNum 7)],
      entry 2 [(''id'', VNum 2), (''deptId'', VNum 20), (''locId'', VNum 7)]]"

definition join_on :: "string \<Rightarrow> data_provider option \<Rightarrow> join_info option" where
  "join_on f dp =
     Some \<lparr>foreignKeyMapping = Some \<lparr>foreignKey = Some f, foreignKeys = None, fk_transform = None\<rparr>,
           joinedDataProvider = dp\<rparr>"

definition join_on_fields :: "string list \<Rightarrow> data_provider option \<Rightarrow> join_info option" where
  "join_on_fields fs dp =
     Some \<lparr>foreignKeyMapping = Some \<lparr>foreignKey = None, foreignKeys = Some fs, fk_transform = None\<rparr>,
           joinedDataProvider = dp\<rparr>"

text \<open>A provider as the constructor leaves it, for parts that are given directly.\<close>

definition provider_with ::
  "joins \<Rightarrow> fk list \<Rightarrow> data_provider option list \<Rightarrow> jdp" where
  "provider_with js ks dps =
     \<lparr>baseDataProvider = table_provider employees, options_joins = Some js,
      mapJoinAttributes = Some Map.empty, fks = ks, transform = map (\<lambda>k. None) ks,
      joinDPs = dps, joinAlias = map fst js\<rparr>"

text \<open>
  The running example: employees joined with their department under the alias
  \<open>dept\<close>, and with a location table that has no entries under the alias \<open>loc\<close>.
\<close>

definition employee1 :: row where
  "employee1 = RObj [(''id'', VNum 1), (''deptId'', VNum 10), (''locId'', VNum 7)]"

definition null_join_provider :: jdp where
  "null_join_provider =
     provider_with [(''dept'', join_on ''deptId'' None)] [FkField ''deptId''] [None]"

definition dept_loc_provider :: jdp where
  "dept_loc_provider =
     provider_with
       [(''dept'', join_on ''deptId'' (Some (table_provider departments))),
        (''loc'', join_on ''locId'' (Some (table_provider [])))]
       [FkField ''deptId'', FkField ''locId'']
       [Some (table_provider departments), Some (table_provider [])]"

definition composite_provider :: jdp where
  "composite_provider =
     provider_with
       [(''a'', join_on_fields [''x'', ''y''] (Some (table_provider departments))),
        (''b'', join_on ''z'' (Some (table_provider departments)))]
       [FkFields [''x'', ''y''], FkField ''z'']
       [Some (table_provider departments), Some (table_provider departments)]"

text \<open>
  A join on the composite key \<open>[a, b]\<close> beside a join on one field, and a row for them.
\<close>

definition pair_provider :: jdp where
  "pair_provider =
     (provider_with
        [(''ab'', join_on_fields [''a'', ''b''] (Some (table_provider departments))),
         (''dept'', join_on ''deptId'' (Some (table_provider departments)))]
        [FkFields [''a'', ''b''], FkField ''deptId'']
        [Some (table_provider departments), Some (table_provider departments)])
     \<lparr>mapJoinAttributes := None\<rparr>"

definition pair_row :: row where
  "pair_row = RObj [(''a'', VNum 1), (''b'', VNum 2), (''deptId'', VNum 10)]"

text \<open>A request of the field \<open>id\<close> and the alias \<open>dept\<close> for the key 1, as a parameter object.\<close>

definition request :: fetch_params where
  "request = no_params\<lparr>attributes := AArr [AStr ''id'', AStr ''dept''], keys := Some [VNum 1]\<rparr>"

text \<open>
  Modelled from the spec: \<open>DataProviderFeatureChecker.isDataProvider\<close>, of the imported
  module \<open>ojs/ojcomponentcore\<close>, the duck-typed check of a value for the methods
  expected of a provider, \<open>fetchFirst\<close> standing for them. The method is read from the
  value itself, which throws for \<open>null\<close> and \<open>undefined\<close>; a value of another kind
  that has no such method is no provider.
\<close>

definition isDataProvider :: "jsval \<Rightarrow> js_error + bool" where
  "isDataProvider v =
     (case v of
        VUndefined \<Rightarrow> Inl (TypeError ''Cannot read properties of undefined (reading fetchFirst)'')
      | VNull \<Rightarrow> Inl (TypeError ''Cannot read properties of null (reading fetchFirst)'')
      | VObj fs \<Rightarrow> Inr (case map_of fs ''fetchFirst'' of None \<Rightarrow> False | Some m \<Rightarrow> True)
      | _ \<Rightarrow> Inr False)"




text \<open>
  A join of the employees with their department alone, and a request by the keys 1 and 3,
  of which the employees have the first.
\<close>

definition dept_provider :: jdp where
  "dept_provider =
     provider_with [(''dept'', join_on ''deptId'' (Some (table_provider departments)))]
       [FkField ''deptId''] [Some (table_provider departments)]"

definition keys_request :: fetch_params where
  "keys_request = no_params\<lparr>keys := Some [VNum 1, VNum 3]\<rparr>"

definition joined_result :: fetchByKeysResults where
  "joined_result =
     \<lparr>fbk_fetchParameters = Some 0,
      fbk_results =
        [(VNum 1, \<lparr>metadata = VObj [(''key'', VNum 1)],
                   data = RObj [(''id'', VNum 1), (''deptId'', VNum 10), (''locId'', VNum 7),
                                (''dept'', VObj [(''name'', VStr ''Eng'')])]\<rparr>),
         (VNum 3, \<lparr>metadata = VNull, data = RNull\<rparr>)]\<rparr>"

text \<open>A row that is \<open>null\<close> stays \<open>null\<close>.\<close>

definition keeps_null :: "row \<Rightarrow> row \<Rightarrow> bool" where
  "keeps_null r r' = (r = RNull \<longrightarrow> r' = RNull)"

section \<open>The join step\<close>

lemmas example_defs = provider_with_def join_on_def join_on_fields_def table_provider_def
  requested_def departments_def employees_def entry_def employee1_def dept_loc_provider_def
  composite_provider_def null_join_provider_def no_params_def pair_provider_def pair_row_def
  request_def dept_provider_def keys_request_def joined_result_def

lemmas join_defs = joiningData_def getFKValues_def fkValue_def fkValues_at_def nth_opt_def
  fetchByKeyResultsToArray_def keymap_get_def assignAliasData_def array_set_def array_get_def
  getField_def

text \<open>
  Claim C8: for every base page, if the page is empty or no joins are configured
  (\<open>options.joins\<close> is undefined, or it has no alias), the join step returns the page
  unchanged and issues no call to any joined provider: no event at all is produced. The
  same holds for a page that is \<open>undefined\<close>.
\<close>

theorem joiningData_identity:
  assumes "baseData = None \<or> baseData = Some [] \<or> options_joins p = None \<or> joinAlias p = []"
  shows "joiningData p baseData = ([], Inr baseData)"
  using assms by (auto simp: joiningData_def split: option.splits)

theorem joiningData_identity_witness:
  "joiningData dept_loc_provider (Some []) = ([], Inr (Some []))
   \<and> joiningData (provider_with [] [] []) (Some [employee1]) = ([], Inr (Some [employee1]))"
proof -
  have "joinAlias (provider_with [] [] []) = []"
    by (simp add: provider_with_def)
  then show ?thesis
    using joiningData_identity [of "Some []" dept_loc_provider]
      joiningData_identity [of "Some [employee1]" "provider_with [] [] []"]
    by simp
qed

text \<open>
  Claim C1 says that a null joined provider yields no fetch and that the join step
  completes. The constructor stores \<open>null\<close> for the alias, and the join step then reads
  \<open>getCapability\<close> of it before the test \<open>joinDP == null\<close> is reached: the step fails with a
  TypeError, on a page of one row, nothing being fetched.
\<close>

theorem joiningData_null_provider_fails:
  "new_JoiningDataProvider (table_provider employees) (Some [(''dept'', join_on ''deptId'' None)])
     = Inr null_join_provider
   \<and> joiningData null_join_provider (Some [employee1])
     = ([], Inl (TypeError ''Cannot read properties of null (reading getCapability)''))"
  by (simp add: new_JoiningDataProvider_def getJoinSpec_def join_on_def provider_with_def
      null_join_provider_def array_set_def joiningData_def nth_opt_def)

text \<open>
  The same holds for every page with a row and every provider: one alias without joined
  provider makes the join step fail.
\<close>

lemma issue_fetches_null_provider:
  "i \<le> j \<Longrightarrow> j < i + length aliases \<Longrightarrow> nth_opt (joinDPs p) j = None \<Longrightarrow>
   \<exists>ev. issue_fetches p fkv aliases i
     = (ev, Inl (TypeError ''Cannot read properties of null (reading getCapability)''))"
proof (induction aliases arbitrary: i)
  case Nil
  then show ?case by simp
next
  case (Cons al rest)
  show ?case
  proof (cases "nth_opt (joinDPs p) i")
    case None
    then show ?thesis by simp
  next
    case (Some joinDP)
    with Cons.prems have "Suc i \<le> j" "j < Suc i + length rest"
      by (auto simp: le_less Suc_le_eq)
    from Cons.IH [OF this Cons.prems(3)] Some show ?thesis
      by (auto simp: Let_def split: prod.splits option.splits)
  qed
qed

lemma joiningData_null_provider:
  assumes "bd \<noteq> []" and "options_joins p = Some js" and "j < length (joinAlias p)"
    and "nth_opt (joinDPs p) j = None"
  shows "\<exists>ev. joiningData p (Some bd)
     = (ev, Inl (TypeError ''Cannot read properties of null (reading getCapability)''))"
proof -
  from assms(3,4) obtain ev where
    "issue_fetches p (getFKValues bd (fks p) (transform p)) (joinAlias p) 0
       = (ev, Inl (TypeError ''Cannot read properties of null (reading getCapability)''))"
    using issue_fetches_null_provider [of 0 j "joinAlias p" p] by auto
  with assms(1,2) show ?thesis
    by (simp add: joiningData_def)
qed

text \<open>
  Claim C3 says that a row whose key is not in the fetched result set of an alias receives
  \<open>null\<close> under that alias, never a stale value. \<open>_fetchByKeyResultsToArray\<close> writes
  \<open>null\<close> for a key without entry, but writes nothing when the result set has no entry at
  all, and \<open>resultData\<close> is shared by the aliases: here the locations resolve to no entry,
  and the row receives under \<open>loc\<close> the department fetched for \<open>dept\<close>.
\<close>

theorem joiningData_empty_result_keeps_stale_data:
  "joiningData (dept_loc_provider\<lparr>mapJoinAttributes := None\<rparr>) (Some [employee1])
   = ([FetchByKeysCall 0 (no_params\<lparr>keys := Some [VNum 10]\<rparr>),
       FetchByKeysCall 1 (no_params\<lparr>keys := Some [VNum 7]\<rparr>)],
      Inr (Some [RObj [(''id'', VNum 1), (''deptId'', VNum 10), (''locId'', VNum 7),
                       (''dept'', VObj [(''name'', VStr ''Eng'')]),
                       (''loc'', VObj [(''name'', VStr ''Eng'')])]]))"
  by (simp add: example_defs join_defs)

text \<open>
  When the alias is the first, \<open>resultData\<close> is still empty, and the row receives
  \<open>undefined\<close>.
\<close>

lemma joiningData_empty_result_first_alias:
  "joiningData
     ((provider_with [(''loc'', join_on ''locId'' (Some (table_provider [])))]
         [FkField ''locId''] [Some (table_provider [])])\<lparr>mapJoinAttributes := None\<rparr>)
     (Some [employee1])
   = ([FetchByKeysCall 0 (no_params\<lparr>keys := Some [VNum 7]\<rparr>)],
      Inr (Some [RObj [(''id'', VNum 1), (''deptId'', VNum 10), (''locId'', VNum 7),
                       (''loc'', VUndefined)]]))"
  by (simp add: example_defs join_defs)

section \<open>The partition of the attributes\<close>

text \<open>
  Claim C4 says that a requested attribute that names no alias is forwarded to the base
  provider as it is, a nested \<open>{name, attributes}\<close> as the same object. The string \<open>id\<close>
  is forwarded as it is; of the nested attribute \<open>address\<close> the base list receives the list
  of its sub-attributes alone, and neither the object nor its name.
\<close>

theorem seperateBaseJoinAttributes_nested_base_attribute:
  "snd (seperateBaseJoinAttributes dept_loc_provider
     (no_params\<lparr>attributes := AArr [AStr ''id'', AObj ''address'' (AArr [AStr ''city''])]\<rparr>))
   = Inr [AStr ''id'', AArr [AStr ''city''], AStr ''deptId'', AStr ''locId'']"
  by (simp add: example_defs seperateBaseJoinAttributes_def array_set_def)

text \<open>
  Claim C6 says that the base list contains every declared foreign-key field, none of them
  twice. With the composite descriptor \<open>[x, y]\<close> declared before the field \<open>z\<close>, the fields
  \<open>x\<close> and \<open>y\<close> are appended by \<open>concat\<close>, which leaves \<open>iBase\<close> behind, and \<open>z\<close> is then
  written over \<open>x\<close>: the request \<open>[name]\<close> gives \<open>[name, z, y]\<close>. A composite descriptor is
  looked up in the list as one element, so its fields are appended also when they are
  there: the request \<open>[x, z]\<close> gives \<open>[x, z, x, y]\<close>.
\<close>

theorem seperateBaseJoinAttributes_composite_fk_lost:
  "snd (seperateBaseJoinAttributes composite_provider
          (no_params\<lparr>attributes := AArr [AStr ''name'']\<rparr>))
     = Inr [AStr ''name'', AStr ''z'', AStr ''y'']
   \<and> snd (seperateBaseJoinAttributes composite_provider
          (no_params\<lparr>attributes := AArr [AStr ''x'', AStr ''z'']\<rparr>))
     = Inr [AStr ''x'', AStr ''z'', AStr ''x'', AStr ''y'']"
  by (simp add: example_defs seperateBaseJoinAttributes_def array_set_def)

section \<open>Foreign keys\<close>

lemma issue_fetches_keys:
  "issue_fetches p fkv aliases i = (ev, r) \<Longrightarrow> FetchByKeysCall j ps \<in> set ev
     \<Longrightarrow> keys ps = fkValues_at fkv j"
proof (induction aliases arbitrary: i ev r)
  case Nil
  then show ?case by simp
next
  case (Cons al rest)
  then show ?case
    by (fastforce simp: no_params_def Let_def split: option.splits prod.splits sum.splits if_splits)
qed

lemma joiningData_keys:
  "FetchByKeysCall j ps \<in> set (fst (joiningData p (Some bd))) \<Longrightarrow>
    keys ps = fkValues_at (getFKValues bd (fks p) (transform p)) j"
  by (auto simp: joiningData_def Let_def split: if_splits prod.splits sum.splits
      dest: issue_fetches_keys)

text \<open>
  Claim C7: for a non-null record \<open>r\<close> at row \<open>j\<close> and an alias \<open>i\<close> without transform, a
  composite descriptor \<open>ns\<close> gives as lookup key the array of the values of the fields
  \<open>ns\<close> of \<open>r\<close>, in the order of the descriptor, and a single-field descriptor \<open>n\<close> gives the
  value of the field \<open>n\<close> itself (\<open>undefined\<close> for a field the record does not have). Every
  \<open>fetchByKeys\<close> that the join step issues for the alias carries as \<open>keys\<close> exactly
  these lookup keys, one per row.
\<close>

theorem getFKValues_no_transform:
  assumes "i < length (fks p)" and "j < length baseData" and "baseData ! j = RObj r"
    and "nth_opt (transform p) i = None"
  shows "(fks p ! i = FkFields ns \<longrightarrow>
            getFKValues baseData (fks p) (transform p) ! i ! j = VArr (map (getField r) ns))
       \<and> (fks p ! i = FkField n \<longrightarrow>
            getFKValues baseData (fks p) (transform p) ! i ! j = getField r n)
       \<and> (FetchByKeysCall i ps \<in> set (fst (joiningData p (Some baseData))) \<longrightarrow>
            keys ps = Some (getFKValues baseData (fks p) (transform p) ! i))"
proof -
  have "getFKValues baseData (fks p) (transform p) ! i ! j = fkValue (RObj r) (fks p ! i) None"
    using assms by (simp add: getFKValues_def)
  moreover have "fkValues_at (getFKValues baseData (fks p) (transform p)) i
      = Some (getFKValues baseData (fks p) (transform p) ! i)"
    using assms(1) by (simp add: fkValues_at_def getFKValues_def)
  ultimately show ?thesis
    using joiningData_keys [of i ps p baseData] by (auto simp: fkValue_def)
qed

theorem getFKValues_no_transform_witness:
  "getFKValues [pair_row] (fks pair_provider) (transform pair_provider) ! 0 ! 0
     = VArr [VNum 1, VNum 2]
   \<and> getFKValues [pair_row] (fks pair_provider) (transform pair_provider) ! 1 ! 0 = VNum 10
   \<and> FetchByKeysCall 0 (no_params\<lparr>keys := Some [VArr [VNum 1, VNum 2]]\<rparr>)
        \<in> set (fst (joiningData pair_provider (Some [pair_row])))
   \<and> keys (no_params\<lparr>keys := Some [VArr [VNum 1, VNum 2]]\<rparr>)
        = Some (getFKValues [pair_row] (fks pair_provider) (transform pair_provider) ! 0)"
proof -
  have call: "FetchByKeysCall 0 (no_params\<lparr>keys := Some [VArr [VNum 1, VNum 2]]\<rparr>)
      \<in> set (fst (joiningData pair_provider (Some [pair_row])))"
    by (simp add: example_defs join_defs)
  have hyps: "0 < length (fks pair_provider)" "Suc 0 < length (fks pair_provider)"
    "(0::nat) < length [pair_row]"
    "[pair_row] ! 0 = RObj [(''a'', VNum 1), (''b'', VNum 2), (''deptId'', VNum 10)]"
    "nth_opt (transform pair_provider) 0 = None" "nth_opt (transform pair_provider) (Suc 0) = None"
    "fks pair_provider ! 0 = FkFields [''a'', ''b'']"
    "fks pair_provider ! Suc 0 = FkField ''deptId''"
    by (simp_all add: example_defs nth_opt_def)
  show ?thesis
    using call
      getFKValues_no_transform [OF hyps(1) hyps(3) hyps(4) hyps(5),
        of "[''a'', ''b'']" "''x''" "no_params\<lparr>keys := Some [VArr [VNum 1, VNum 2]]\<rparr>"]
      getFKValues_no_transform [OF hyps(2) hyps(3) hyps(4) hyps(6),
        of "[]" "''deptId''" "no_params"]
    by (simp add: hyps(7) hyps(8) getField_def)
qed

section \<open>The parameter objects\<close>

text \<open>
  Claim C10: called with a parameter object that holds an attributes list, \<open>fetchFirst\<close>
  writes the computed base attributes into that very object (the store holds the changed
  object at the caller's reference) and hands the same reference to the base provider;
  \<open>fetchByKeys\<close> and \<open>fetchByOffset\<close> leave every object of the store as it was, and hand
  the base provider a new object, built from the caller's and the computed attributes.
\<close>

theorem fetch_params_frame:
  assumes "a < length h" and "attr_truthy (attributes (h ! a))"
    and "seperateBaseJoinAttributes p (h ! a) = (p', Inr base)"
  shows "store_after (fetchFirst p h (Some a)) = h[a := (h ! a)\<lparr>attributes := AArr base\<rparr>]
       \<and> events (fetchFirst p h (Some a))
           = [BaseCall (Some a) (Some ((h ! a)\<lparr>attributes := AArr base\<rparr>))]
       \<and> store_after (fetchByKeys p h (Some a))
           = h @ [no_params\<lparr>keys := keys (h ! a), attributes := AArr base, scope := scope (h ! a)\<rparr>]
       \<and> hd (events (fetchByKeys p h (Some a)))
           = BaseCall (Some (length h))
               (Some (no_params\<lparr>keys := keys (h ! a), attributes := AArr base, scope := scope (h ! a)\<rparr>))
       \<and> store_after (fetchByOffset p h (Some a))
           = h @ [no_params\<lparr>attributes := AArr base, clientId := clientId (h ! a),
                   filterCriterion := filterCriterion (h ! a), offset := offset (h ! a),
                   size_param := size_param (h ! a), sortCriteria := sortCriteria (h ! a)\<rparr>]
       \<and> hd (events (fetchByOffset p h (Some a)))
           = BaseCall (Some (length h))
               (Some (no_params\<lparr>attributes := AArr base, clientId := clientId (h ! a),
                   filterCriterion := filterCriterion (h ! a), offset := offset (h ! a),
                   size_param := size_param (h ! a), sortCriteria := sortCriteria (h ! a)\<rparr>))"
proof -
  have ff: "store_after (fetchFirst p h (Some a)) = h[a := (h ! a)\<lparr>attributes := AArr base\<rparr>]
       \<and> events (fetchFirst p h (Some a))
           = [BaseCall (Some a) (Some ((h ! a)\<lparr>attributes := AArr base\<rparr>))]"
    using assms by (simp add: fetchFirst_def deref_def fetch_out_def)
  have bp: "base_params build p h (Some a) = (p', h @ [build (h ! a) base], Inr (Some (length h)))"
    for build
    using assms by (simp add: base_params_def deref_def)
  have fk: "store_after (fetchByKeys p h (Some a))
           = h @ [no_params\<lparr>keys := keys (h ! a), attributes := AArr base, scope := scope (h ! a)\<rparr>]
       \<and> hd (events (fetchByKeys p h (Some a)))
           = BaseCall (Some (length h))
               (Some (no_params\<lparr>keys := keys (h ! a), attributes := AArr base, scope := scope (h ! a)\<rparr>))"
    by (simp add: fetchByKeys_def bp fetch_out_def deref_def split: sum.splits prod.splits)
  have fo: "store_after (fetchByOffset p h (Some a))
           = h @ [no_params\<lparr>attributes := AArr base, clientId := clientId (h ! a),
                   filterCriterion := filterCriterion (h ! a), offset := offset (h ! a),
                   size_param := size_param (h ! a), sortCriteria := sortCriteria (h ! a)\<rparr>]
       \<and> hd (events (fetchByOffset p h (Some a)))
           = BaseCall (Some (length h))
               (Some (no_params\<lparr>attributes := AArr base, clientId := clientId (h ! a),
                   filterCriterion := filterCriterion (h ! a), offset := offset (h ! a),
                   size_param := size_param (h ! a), sortCriteria := sortCriteria (h ! a)\<rparr>))"
    by (simp add: fetchByOffset_def bp fetch_out_def deref_def split: sum.splits prod.splits)
  from ff fk fo show ?thesis by blast
qed

theorem fetch_params_frame_witness:
  "store_after (fetchFirst dept_loc_provider [request] (Some 0))
     = [request\<lparr>attributes := AArr [AStr ''id'', AStr ''deptId'', AStr ''locId'']\<rparr>]
   \<and> events (fetchFirst dept_loc_provider [request] (Some 0))
     = [BaseCall (Some 0)
          (Some (request\<lparr>attributes := AArr [AStr ''id'', AStr ''deptId'', AStr ''locId'']\<rparr>))]
   \<and> store_after (fetchByKeys dept_loc_provider [request] (Some 0))
     = [request, no_params\<lparr>keys := Some [VNum 1],
          attributes := AArr [AStr ''id'', AStr ''deptId'', AStr ''locId'']\<rparr>]
   \<and> store_after (fetchByOffset dept_loc_provider [request] (Some 0))
     = [request, no_params\<lparr>attributes := AArr [AStr ''id'', AStr ''deptId'', AStr ''locId'']\<rparr>]"
proof -
  have sep: "seperateBaseJoinAttributes dept_loc_provider ([request] ! 0)
      = (dept_loc_provider\<lparr>mapJoinAttributes := Some (Map.empty(''dept'' \<mapsto> AStr ''dept''))\<rparr>,
         Inr [AStr ''id'', AStr ''deptId'', AStr ''locId''])"
    by (simp add: example_defs seperateBaseJoinAttributes_def array_set_def)
  have truthy: "attr_truthy (attributes ([request] ! 0))"
    by (simp add: request_def)
  show ?thesis
    using fetch_params_frame [OF _ truthy sep] by (simp add: request_def no_params_def)
qed

section \<open>The deferred provider and a value that is no provider\<close>

text \<open>
  When the check answers that the resolved value is no provider, \<open>fetchByKeys\<close>,
  \<open>fetchByOffset\<close>, \<open>containsKeys\<close> and \<open>getTotalSize\<close> return a promise rejected with
  the error \<open>Invalid data type. DeferredDataProvider takes a Promise<DataProvider>\<close>, and
  \<open>fetchFirst\<close> returns an iterable whose iterator promise is rejected with that error, so
  that \<open>next\<close> is rejected with it. No operation is invoked on the value, and the provider
  keeps its state.
\<close>

lemma deferred_check_false:
  assumes "dd_promise self = Inr v" and "check v = Inr False"
  shows "deferred_fetchByKeys check run self params = (self, [], Inl invalid_data_type)
       \<and> deferred_fetchByOffset check run self params = (self, [], Inl invalid_data_type)
       \<and> deferred_containsKeys check run self params = (self, [], Inl invalid_data_type)
       \<and> deferred_getTotalSize check run self = (self, [], Inl invalid_data_type)
       \<and> deferred_fetchFirst check run' self params
           = (self, [], AsyncIterable (Inl invalid_data_type))
       \<and> deferred_next nxt (AsyncIterable (Inl invalid_data_type)) = ([], Inl invalid_data_type)"
proof -
  have g: "getDataProvider check self = (self, Inl invalid_data_type)"
    using assms by (simp add: getDataProvider_def)
  have t: "deferred_then check r self f = (self, [], Inl invalid_data_type)"
    for r :: "'a dd_call \<Rightarrow> js_error + 'x" and f
    by (simp add: deferred_then_def g)
  show ?thesis
    by (simp add: t deferred_fetchByKeys_def deferred_fetchByOffset_def deferred_containsKeys_def
        deferred_getTotalSize_def deferred_fetchFirst_def)
qed

text \<open>
  When the check itself throws, the promises are rejected with what it throws, and not
  with the error of the provider; no operation is invoked either.
\<close>

lemma deferred_check_throws:
  assumes "dd_promise self = Inr v" and "check v = Inl e"
  shows "deferred_fetchByKeys check run self params = (self, [], Inl e)
       \<and> deferred_fetchByOffset check run self params = (self, [], Inl e)
       \<and> deferred_containsKeys check run self params = (self, [], Inl e)
       \<and> deferred_getTotalSize check run self = (self, [], Inl e)
       \<and> deferred_fetchFirst check run' self params = (self, [], AsyncIterable (Inl e))
       \<and> deferred_next nxt (AsyncIterable (Inl e)) = ([], Inl e)"
proof -
  have g: "getDataProvider check self = (self, Inl e)"
    using assms by (simp add: getDataProvider_def)
  have t: "deferred_then check r self f = (self, [], Inl e)"
    for r :: "'a dd_call \<Rightarrow> js_error + 'x" and f
    by (simp add: deferred_then_def g)
  show ?thesis
    by (simp add: t deferred_fetchByKeys_def deferred_fetchByOffset_def deferred_containsKeys_def
        deferred_getTotalSize_def deferred_fetchFirst_def)
qed


section \<open>The result of \<open>fetchByKeys\<close>\<close>

text \<open>
  Written from index 0 into empty arrays, the loop of \<open>_fetchByKeyResultsToArray\<close> gives
  one element per key: the item found, or \<open>null\<close>.
\<close>

lemma toArray_loop_maps:
  "length md = i \<Longrightarrow> length dt = i \<Longrightarrow>
   toArray_loop m ks i md dt =
     (md @ map (\<lambda>k. case keymap_get m k of Some it \<Rightarrow> metadata it | None \<Rightarrow> VNull) ks,
      dt @ map (\<lambda>k. case keymap_get m k of Some it \<Rightarrow> data it | None \<Rightarrow> RNull) ks)"
proof (induction ks arbitrary: i md dt)
  case Nil
  then show ?case by simp
next
  case (Cons k ks)
  from Cons.prems have "array_set VUndefined md i x = md @ [x]" "array_set RUndefined dt i y = dt @ [y]" for x y
    by (simp_all add: array_set_def)
  with Cons.prems show ?case
    by (simp add: Cons.IH [of _ "Suc i"] split: option.splits)
qed

lemma assign_loop_nulls: "list_all2 keeps_null bd (assign_loop bd i a ad)"
  by (induction bd arbitrary: i) (auto simp: keeps_null_def split: row.splits)

lemma keeps_null_trans: "list_all2 keeps_null xs ys \<Longrightarrow> list_all2 keeps_null ys zs \<Longrightarrow> list_all2 keeps_null xs zs"
  by (rule list_all2_trans [of keeps_null keeps_null keeps_null]) (auto simp: keeps_null_def)

lemma merge_results_nulls:
  "merge_results p fkv aliases rs i md dt bd = Inr jd \<Longrightarrow> list_all2 keeps_null bd jd"
proof (induction p fkv aliases rs i md dt bd rule: merge_results.induct)
  case (1 p fkValues a as r rs i md dt baseData)
  show ?case
  proof (cases "case mapJoinAttributes p of None \<Rightarrow> True | Some m \<Rightarrow> m a \<noteq> None")
    case True
    with "1.prems" obtain md' dt' where
      arr: "fetchByKeyResultsToArray r (fkValues_at fkValues i) md dt = Inr (md', dt')"
      and rest: "merge_results p fkValues as rs (Suc i) md' dt' (assignAliasData baseData a dt') = Inr jd"
      by (auto split: sum.splits)
    from "1.IH"(1) [OF True arr refl rest]
    have "list_all2 keeps_null (assignAliasData baseData a dt') jd" .
    moreover have "list_all2 keeps_null baseData (assignAliasData baseData a dt')"
      by (simp add: assignAliasData_def assign_loop_nulls)
    ultimately show ?thesis
      by (rule keeps_null_trans [rotated])
  next
    case False
    with "1.prems" have "merge_results p fkValues as rs (Suc i) md dt baseData = Inr jd"
      by simp
    with False show ?thesis
      by (intro "1.IH"(2)) simp_all
  qed
qed (auto simp: keeps_null_def list.rel_refl)

lemma joiningData_nulls:
  "joiningData p (Some bd) = (ev, Inr out) \<Longrightarrow> \<exists>jd. out = Some jd \<and> list_all2 keeps_null bd jd"
  by (auto simp: joiningData_def Let_def keeps_null_def list.rel_refl
      split: if_splits prod.splits sum.splits dest: merge_results_nulls)

lemma set_items_keys:
  "fst ` set (set_items ks i md jd res) = set ks \<union> fst ` set res"
  by (induction ks arbitrary: i res) (auto simp: keymap_set_def dom_update)

lemma set_items_other:
  "k \<notin> set ks \<Longrightarrow> map_of (set_items ks i md jd res) k = map_of res k"
  by (induction ks arbitrary: i res) (auto simp: keymap_set_def update_conv')

lemma set_items_value:
  "k \<in> set ks \<Longrightarrow>
   (\<And>j. j < length ks \<Longrightarrow> ks ! j = k \<Longrightarrow>
      \<lparr>metadata = array_get VUndefined md (i + j), data = array_get RUndefined jd (i + j)\<rparr> = v)
   \<Longrightarrow> map_of (set_items ks i md jd res) k = Some v"
proof (induction ks arbitrary: i res)
  case Nil
  then show ?case by simp
next
  case (Cons key ks)
  show ?case
  proof (cases "k \<in> set ks")
    case True
    have "\<lparr>metadata = array_get VUndefined md (Suc i + j), data = array_get RUndefined jd (Suc i + j)\<rparr> = v"
      if "j < length ks" "ks ! j = k" for j
      using Cons.prems(2) [of "Suc j"] that by simp
    with True show ?thesis
      by (simp add: Cons.IH)
  next
    case False
    with Cons.prems(1) have "key = k"
      by simp
    moreover from Cons.prems(2) [of 0] this
    have "\<lparr>metadata = array_get VUndefined md i, data = array_get RUndefined jd i\<rparr> = v"
      by simp
    ultimately show ?thesis
      using False by (simp add: set_items_other keymap_set_def update_conv')
  qed
qed

text \<open>
  The callback of \<open>fetchByKeys\<close> sets an item for every key of the request, and a key
  without entry in a base result that has entries gets an item of \<open>null\<close>s.
\<close>

lemma fetchByKeys_then_entries:
  assumes run: "fetchByKeys_then p h params (ResObj (Some m)) = (ev, Inr (Some res))"
    and obj: "deref h params = Some obj" and ks: "keys obj = Some ks"
  shows "fst ` set (fbk_results res) = set ks"
    and "m \<noteq> [] \<Longrightarrow> k \<in> set ks \<Longrightarrow> keymap_get m k = None \<Longrightarrow>
         keymap_get (fbk_results res) k = Some \<lparr>metadata = VNull, data = RNull\<rparr>"
proof -
  define md where
    "md = (if m \<noteq> [] then map (\<lambda>k. case keymap_get m k of Some it \<Rightarrow> metadata it | None \<Rightarrow> VNull) ks else [])"
  define dt where
    "dt = (if m \<noteq> [] then map (\<lambda>k. case keymap_get m k of Some it \<Rightarrow> data it | None \<Rightarrow> RNull) ks else [])"
  have arr: "fetchByKeyResultsToArray (ResObj (Some m)) (Some ks) [] [] = Inr (md, dt)"
    by (simp add: md_def dt_def fetchByKeyResultsToArray_def toArray_loop_maps)
  with run obj ks obtain jd where
    jn: "joiningData p (Some dt) = (ev, Inr (Some jd))"
    and res: "fbk_results res = set_items ks 0 md jd []"
    by (auto simp: fetchByKeys_then_def split: prod.splits sum.splits option.splits if_splits
        dest: joiningData_nulls)
  from res show "fst ` set (fbk_results res) = set ks"
    by (simp add: set_items_keys)
  assume m: "m \<noteq> []" and k: "k \<in> set ks" and absent: "keymap_get m k = None"
  from m have md: "md = map (\<lambda>k. case keymap_get m k of Some it \<Rightarrow> metadata it | None \<Rightarrow> VNull) ks"
    and dt: "dt = map (\<lambda>k. case keymap_get m k of Some it \<Rightarrow> data it | None \<Rightarrow> RNull) ks"
    by (simp_all add: md_def dt_def)
  from jn have nulls: "list_all2 keeps_null dt jd"
    by (auto dest: joiningData_nulls)
  have "\<lparr>metadata = array_get VUndefined md (0 + j), data = array_get RUndefined jd (0 + j)\<rparr>
      = \<lparr>metadata = VNull, data = RNull\<rparr>" if "j < length ks" "ks ! j = k" for j
  proof -
    from that absent have "md ! j = VNull" "dt ! j = RNull" "j < length dt"
      by (simp_all add: md dt)
    with nulls have "jd ! j = RNull" "j < length jd"
      by (auto simp: list_all2_conv_all_nth keeps_null_def)
    with that \<open>md ! j = VNull\<close> show ?thesis
      by (simp add: array_get_def md)
  qed
  with k have "map_of (set_items ks 0 md jd []) k = Some \<lparr>metadata = VNull, data = RNull\<rparr>"
    by (rule set_items_value)
  with res show "keymap_get (fbk_results res) k = Some \<lparr>metadata = VNull, data = RNull\<rparr>"
    by (simp add: keymap_get_def)
qed

lemma seperateBaseJoinAttributes_base:
  "seperateBaseJoinAttributes p obj = (p', r) \<Longrightarrow> baseDataProvider p' = baseDataProvider p"
  by (auto simp: seperateBaseJoinAttributes_def split: prod.splits sum.splits)

lemma base_params_frame:
  assumes "base_params build p h params = (p', h', r)"
  shows "baseDataProvider p' = baseDataProvider p"
    and "deref h params = Some obj \<Longrightarrow> deref h' params = Some obj"
  using assms
  by (auto simp: base_params_def deref_def nth_append
      split: option.splits if_splits prod.splits sum.splits
      dest: seperateBaseJoinAttributes_base)

text \<open>
  Claim C2, as stated, fails: the employees resolve the key 1 and not the key 3, and the
  result has an item for the key 3, with \<open>null\<close> as metadata and as data.
\<close>

lemma fetchByKeys_example:
  "fetchByKeys dept_provider [keys_request] (Some 0)
     = fetch_out [keys_request] (dept_provider\<lparr>mapJoinAttributes := None\<rparr>)
         [BaseCall (Some 0) (Some keys_request),
          FetchByKeysCall 0 (no_params\<lparr>keys := Some [VNum 10, VNull]\<rparr>)]
         (Inr (Some joined_result))"
  by (simp add: fetchByKeys_def base_params_def fetchByKeys_then_def deref_def keymap_set_def
      example_defs join_defs)

theorem fetchByKeys_absent_key_has_entry:
  "dp_fetchByKeys (baseDataProvider dept_provider) (Some keys_request)
     = Inr (ResObj (Some [entry 1 [(''id'', VNum 1), (''deptId'', VNum 10), (''locId'', VNum 7)]]))
   \<and> outcome (fetchByKeys dept_provider [keys_request] (Some 0)) = Inr (Some joined_result)
   \<and> keymap_get (fbk_results joined_result) (VNum 3) = Some \<lparr>metadata = VNull, data = RNull\<rparr>"
  by (simp add: fetchByKeys_example fetch_out_def)
    (simp add: example_defs keymap_get_def)

text \<open>
  Claim C2, amended: when \<open>fetchByKeys\<close> returns a result, the mapping returned has an
  entry for every requested key, and for no other key; a requested key that the result of
  the base provider, called with \<open>bp\<close>, does not have, while it has other entries, is
  mapped to a placeholder item whose metadata and data are \<open>null\<close>.
\<close>

theorem fetchByKeys_entry_for_every_key:
  assumes out: "outcome (fetchByKeys p h params) = Inr (Some res)"
    and obj: "deref h params = Some obj" and ks: "keys obj = Some ks"
    and call: "hd (events (fetchByKeys p h params)) = BaseCall r bp"
    and base: "dp_fetchByKeys (baseDataProvider p) bp = Inr (ResObj (Some m))"
  shows "fst ` set (fbk_results res) = set ks
       \<and> (m \<noteq> [] \<and> k \<in> set ks \<and> keymap_get m k = None \<longrightarrow>
            keymap_get (fbk_results res) k = Some \<lparr>metadata = VNull, data = RNull\<rparr>)"
proof -
  let ?build = "\<lambda>obj baseAttributes. no_params\<lparr>keys := keys obj,
      attributes := AArr baseAttributes, scope := scope obj\<rparr>"
  obtain p' h' bpr where bp: "base_params ?build p h params = (p', h', bpr)"
    by (cases "base_params ?build p h params") auto
  with out obtain baseParams where bpr: "bpr = Inr baseParams"
    by (cases bpr) (auto simp: fetchByKeys_def fetch_out_def)
  from bp have prov: "baseDataProvider p' = baseDataProvider p"
    and obj': "deref h' params = Some obj"
    using obj by (auto dest: base_params_frame)
  from out bp bpr obtain baseResults where
    br: "dp_fetchByKeys (baseDataProvider p') (deref h' baseParams) = Inr baseResults"
    by (cases "dp_fetchByKeys (baseDataProvider p') (deref h' baseParams)")
      (auto simp: fetchByKeys_def fetch_out_def)
  obtain ev out' where th: "fetchByKeys_then p' h' params baseResults = (ev, out')"
    by (cases "fetchByKeys_then p' h' params baseResults") auto
  from bp bpr br th have
    run: "fetchByKeys p h params
      = fetch_out h' p' (BaseCall baseParams (deref h' baseParams) # ev) out'"
    by (simp add: fetchByKeys_def)
  with call have "bp = deref h' baseParams"
    by (auto simp: fetch_out_def)
  with base br prov have "baseResults = ResObj (Some m)"
    by simp
  moreover from run out have "out' = Inr (Some res)"
    by (simp add: fetch_out_def)
  ultimately have "fetchByKeys_then p' h' params (ResObj (Some m)) = (ev, Inr (Some res))"
    using th by simp
  from fetchByKeys_then_entries [OF this obj' ks] show ?thesis
    by blast
qed

theorem fetchByKeys_entry_for_every_key_witness:
  "outcome (fetchByKeys dept_provider [keys_request] (Some 0)) = Inr (Some joined_result)
   \<and> fst ` set (fbk_results joined_result) = set [VNum 1, VNum 3]
   \<and> keymap_get (fbk_results joined_result) (VNum 3) = Some \<lparr>metadata = VNull, data = RNull\<rparr>"
proof -
  let ?m = "[entry 1 [(''id'', VNum 1), (''deptId'', VNum 10), (''locId'', VNum 7)]]"
  have out: "outcome (fetchByKeys dept_provider [keys_request] (Some 0)) = Inr (Some joined_result)"
    and call: "hd (events (fetchByKeys dept_provider [keys_request] (Some 0)))
      = BaseCall (Some 0) (Some keys_request)"
    by (simp_all add: fetchByKeys_example fetch_out_def)
  have obj: "deref [keys_request] (Some 0) = Some keys_request"
    by (simp add: deref_def)
  have ks: "keys keys_request = Some [VNum 1, VNum 3]"
    by (simp add: keys_request_def no_params_def)
  have base: "dp_fetchByKeys (baseDataProvider dept_provider) (Some keys_request)
      = Inr (ResObj (Some ?m))"
    by (simp add: example_defs)
  have absent: "?m \<noteq> [] \<and> VNum 3 \<in> set [VNum 1, VNum 3] \<and> keymap_get ?m (VNum 3) = None"
    by (simp add: keymap_get_def entry_def)
  from fetchByKeys_entry_for_every_key [OF out obj ks call base, of "VNum 3"] absent out
  show ?thesis
    by blast
qed

section \<open>An alias requested more than once\<close>

lemma classify_append:
  "classify al (xs @ ys) i b m =
     (case classify al xs i b m of
        (m', Inl e) \<Rightarrow> (m', Inl e)
      | (m', Inr (i', b')) \<Rightarrow> classify al ys i' b' m')"
  by (induction xs arbitrary: i b m) (auto simp: Let_def split: sum.splits option.splits prod.splits)

lemma classify_other:
  "classify al xs i b m = (m', Inr r) \<Longrightarrow> \<forall>y\<in>set xs. \<forall>w. attr_parts y \<noteq> Inr (Some n, w)
     \<Longrightarrow> m' n = m n"
proof (induction xs arbitrary: i b m)
  case Nil
  then show ?case by simp
next
  case (Cons x xs)
  then show ?case
    by (fastforce simp: Let_def split: sum.splits option.splits prod.splits if_splits)
qed

lemma classify_keeps_defined:
  "classify al xs i b m = (m', Inr r) \<Longrightarrow> m n = Some u \<Longrightarrow> attr_defined u \<Longrightarrow> m' n = Some u"
proof (induction xs arbitrary: i b m)
  case Nil
  then show ?case by simp
next
  case (Cons x xs)
  then show ?case
    by (fastforce simp: Let_def split: sum.splits option.splits prod.splits if_splits)
qed

lemma classify_undefined_first:
  "classify al xs i b m = (m', Inr r) \<Longrightarrow> n \<in> set al \<Longrightarrow> m n = Some u \<Longrightarrow> \<not> attr_defined u
     \<Longrightarrow> y \<in> set xs \<Longrightarrow> attr_parts y = Inr (Some n, w) \<Longrightarrow> attr_defined w
     \<Longrightarrow> m' n = Some (AArr [])"
proof (induction xs arbitrary: i b m)
  case Nil
  then show ?case by simp
next
  case (Cons x xs)
  from Cons.prems(1) obtain name attrs where ap: "attr_parts x = Inr (name, attrs)"
    by (cases "attr_parts x") auto
  consider (hit) "name = Some n" "attr_defined attrs"
    | (miss) "name = Some n" "\<not> attr_defined attrs"
    | (other) "name \<noteq> Some n"
    by blast
  then show ?case
  proof cases
    case hit
    with Cons.prems ap have "classify al xs i b (m(n \<mapsto> AArr [])) = (m', Inr r)"
      by (simp add: Let_def split: if_splits)
    then show ?thesis
      by (rule classify_keeps_defined) simp_all
  next
    case miss
    with Cons.prems ap have rest: "classify al xs i b m = (m', Inr r)"
      by simp
    from miss ap Cons.prems(6,7) have "y \<noteq> x"
      by auto
    with Cons.prems(5) have "y \<in> set xs"
      by simp
    with rest Cons.prems show ?thesis
      by (intro Cons.IH [of i b m]) simp_all
  next
    case other
    from other ap Cons.prems(6) have "y \<noteq> x"
      by auto
    with Cons.prems(5) have y: "y \<in> set xs"
      by simp
    from other ap Cons.prems(1) obtain i' b' m1 where
      rest: "classify al xs i' b' m1 = (m', Inr r)" and same: "m1 n = m n"
      by (auto simp: Let_def split: option.splits if_splits)
    with y Cons.prems show ?thesis
      by (intro Cons.IH [of i' b' m1]) simp_all
  qed
qed

text \<open>
  Claim C5, as stated, fails when the first occurrence of the alias has no attribute
  value: requested as \<open>{name: dept}\<close> and then as \<open>{name: dept, attributes: [name]}\<close>, the
  alias is mapped to the empty list, which is not the value \<open>undefined\<close> of the first
  occurrence.
\<close>

theorem repeated_alias_after_undefined_first:
  "attr_parts (AObj ''dept'' AUndefined) = Inr (Some ''dept'', AUndefined)
   \<and> joinAttributesOf
       (fst (seperateBaseJoinAttributes dept_provider
          (no_params\<lparr>attributes :=
             AArr [AObj ''dept'' AUndefined, AObj ''dept'' (AArr [AStr ''name''])]\<rparr>)))
       ''dept''
     = Some (AArr [])"
  by (simp add: example_defs seperateBaseJoinAttributes_def joinAttributesOf_def)

text \<open>
  Claim C5, amended: when an attribute request names a join alias more than once and a
  later occurrence carries sub-attributes, the entry of the alias in the map of join
  attributes, after a partition that returns, is the attribute value of the first
  occurrence if that value is neither \<open>undefined\<close> nor \<open>null\<close>, and the empty list
  otherwise; the sub-attributes of the later occurrences are in neither.
\<close>

theorem seperateBaseJoinAttributes_repeated_alias:
  assumes al: "n \<in> set (joinAlias p)"
    and elems: "attr_elems (attributes params) = Inr (pre @ x # post)"
    and first: "\<forall>z\<in>set pre. \<forall>u. attr_parts z \<noteq> Inr (Some n, u)"
    and x: "attr_parts x = Inr (Some n, v)"
    and later: "y \<in> set post" "attr_parts y = Inr (Some n, w)" "attr_defined w"
    and ret: "seperateBaseJoinAttributes p params = (p', Inr base)"
  shows "joinAttributesOf p' n = Some (if attr_defined v then v else AArr [])"
proof -
  from ret elems obtain m iBase b where
    cl: "classify (joinAlias p) (pre @ x # post) 0 [] Map.empty = (m, Inr (iBase, b))"
    and p': "p' = p\<lparr>mapJoinAttributes := Some m\<rparr>"
    by (auto simp: seperateBaseJoinAttributes_def split: prod.splits sum.splits)
  from cl obtain m1 i1 b1 where
    c1: "classify (joinAlias p) pre 0 [] Map.empty = (m1, Inr (i1, b1))"
    and c2: "classify (joinAlias p) (x # post) i1 b1 m1 = (m, Inr (iBase, b))"
    by (auto simp: classify_append split: prod.splits sum.splits)
  from c1 first have "m1 n = None"
    using classify_other [of "joinAlias p" pre 0 "[]" Map.empty m1 "(i1, b1)" n] by simp
  with c2 x al have c3: "classify (joinAlias p) post i1 b1 (m1(n \<mapsto> v)) = (m, Inr (iBase, b))"
    by simp
  have "m n = Some (if attr_defined v then v else AArr [])"
  proof (cases "attr_defined v")
    case True
    with c3 show ?thesis
      using classify_keeps_defined [of "joinAlias p" post i1 b1 "m1(n \<mapsto> v)" m "(iBase, b)" n v]
      by simp
  next
    case False
    with c3 al later show ?thesis
      using classify_undefined_first [of "joinAlias p" post i1 b1 "m1(n \<mapsto> v)" m "(iBase, b)" n v y w]
      by simp
  qed
  with p' show ?thesis
    by (simp add: joinAttributesOf_def)
qed

theorem seperateBaseJoinAttributes_repeated_alias_witness:
  "joinAttributesOf
     (fst (seperateBaseJoinAttributes dept_provider
        (no_params\<lparr>attributes :=
           AArr [AStr ''id'', AObj ''dept'' (AArr [AStr ''id'']),
                 AObj ''dept'' (AArr [AStr ''name''])]\<rparr>)))
     ''dept''
   = Some (AArr [AStr ''id''])
   \<and> joinAttributesOf
     (fst (seperateBaseJoinAttributes dept_provider
        (no_params\<lparr>attributes :=
           AArr [AStr ''id'', AObj ''dept'' AUndefined,
                 AObj ''dept'' (AArr [AStr ''name''])]\<rparr>)))
     ''dept''
   = Some (AArr [])"
proof -
  let ?later = "AObj ''dept'' (AArr [AStr ''name''])"
  let ?req = "\<lambda>x. no_params\<lparr>attributes := AArr [AStr ''id'', x, ?later]\<rparr>"
  have al: "''dept'' \<in> set (joinAlias dept_provider)"
    by (simp add: example_defs)
  have elems: "attr_elems (attributes (?req x)) = Inr ([AStr ''id''] @ x # [?later])" for x
    by (simp add: no_params_def)
  have first: "\<forall>z\<in>set [AStr ''id'']. \<forall>u. attr_parts z \<noteq> Inr (Some ''dept'', u)"
    by simp
  have later: "?later \<in> set [?later]"
    "attr_parts ?later = Inr (Some ''dept'', AArr [AStr ''name''])"
    "attr_defined (AArr [AStr ''name''])"
    by simp_all
  have ret: "seperateBaseJoinAttributes dept_provider (?req x)
      = (fst (seperateBaseJoinAttributes dept_provider (?req x)), Inr [AStr ''id'', AStr ''deptId''])"
    if "x = AObj ''dept'' (AArr [AStr ''id'']) \<or> x = AObj ''dept'' AUndefined" for x
    using that by (auto simp: prod_eq_iff example_defs seperateBaseJoinAttributes_def array_set_def)
  show ?thesis
    using
      seperateBaseJoinAttributes_repeated_alias [OF al elems first _ later ret,
        of "AObj ''dept'' (AArr [AStr ''id''])" "AArr [AStr ''id'']"]
      seperateBaseJoinAttributes_repeated_alias [OF al elems first _ later ret,
        of "AObj ''dept'' AUndefined" "AUndefined"]
    by simp
qed

end
